theory Spec2Isabelle
  imports Main "HOL-Library.Word"
begin

section \<open>The Location object of LibWeb (Libraries/LibWeb/HTML/Location.cpp)\<close>

text \<open>
  The Location object reads the URL of its relevant document, reparses one component of a
  copy of it and hands the copy to the navigable. The development follows Location.cpp
  function by function. What Location.cpp calls but does not define (the URL parser, the
  serializers, the origin comparison, the navigable, the ordinary object operations of
  LibJS) is a field of the record \<open>Env\<close>: every theorem holds for every such
  collaborator. Strings are byte strings. Failure to allocate memory is not modelled.
\<close>

subsection \<open>URL records\<close>

text \<open>
  Modelled from the spec: the URL record of LibURL (URL.h is not among the sources), with
  the fields of section 3 of the specification: a host is a domain, an IPv4 address,
  an IPv6 address, an opaque host or the empty host; a port is a 16-bit integer; a path
  is either one opaque string or a list of segments; an absent query or fragment differs
  from an empty one.
\<close>

datatype Host =
    Domain string
  | IPv4 "32 word"
  | IPv6 "16 word list"
  | OpaqueHost string
  | EmptyHost

datatype Path = OpaquePath string | Segments "string list"

record URL =
  url_scheme :: string
  url_username :: string
  url_password :: string
  url_host :: "Host option"
  url_port :: "16 word option"
  url_paths :: Path
  url_query :: "string option"
  url_fragment :: "string option"

text \<open>
  Modelled from the spec: \<open>URL::has_an_opaque_path\<close> and
  \<open>URL::cannot_have_a_username_or_password_or_port\<close> of LibURL, the derived flags of
  section 3 ("true when host is absent or scheme is file"), and \<open>URL::about_blank\<close>,
  the fixed sentinel of a Location without a document.
\<close>

definition has_an_opaque_path :: "URL \<Rightarrow> bool" where
  "has_an_opaque_path u = (case url_paths u of OpaquePath _ \<Rightarrow> True | Segments _ \<Rightarrow> False)"

definition cannot_have_a_username_or_password_or_port :: "URL \<Rightarrow> bool" where
  "cannot_have_a_username_or_password_or_port u =
     (url_host u = None \<or> url_scheme u = ''file'')"

definition about_blank :: URL where
  "about_blank = \<lparr> url_scheme = ''about'', url_username = [], url_password = [],
     url_host = None, url_port = None, url_paths = OpaquePath ''blank'',
     url_query = None, url_fragment = None \<rparr>"

text \<open>
  Modelled from the spec: the states of \<open>URL::Parser\<close> (Parser.h is not among the
  sources), the enumeration of section 4.1. Location.cpp names SchemeStart, Host,
  Hostname, Port, PathStart, Query and Fragment.
\<close>

datatype State =
    SchemeStart | Scheme | NoScheme | SpecialRelativeOrAuthority | PathOrAuthority
  | Relative | RelativeSlash | SpecialAuthoritySlashes | SpecialAuthorityIgnoreSlashes
  | Authority | Host | Hostname | Port | File | FileSlash | FileHost | PathStart
  | PathState | OpaquePathState | Query | Fragment

subsection \<open>Origins, documents and the world a Location lives in\<close>

text \<open>
  Modelled from the spec: an origin is a tuple of scheme, host, port and domain, or an
  opaque marker. Its comparison is a collaborator (see \<open>Env\<close>).
\<close>

datatype Origin =
    OpaqueOrigin nat
  | TupleOrigin string Host "16 word option" "string option"

type_synonym Navigable = nat
type_synonym DocumentId = nat

record Document =
  document_id :: DocumentId
  document_origin :: Origin
  document_url :: URL
  is_completely_loaded :: bool
  navigable :: Navigable

record BrowsingContext =
  active_document :: "Document option"

text \<open>
  Modelled from the spec: \<open>Bindings::NavigationHistoryBehavior\<close>, of the generated
  bindings (not among the sources). The specification names the modes "push" and
  "replace", Location.cpp names \<open>Replace\<close>; \<open>Auto\<close> stands for any further mode.
\<close>

datatype NavigationHistoryBehavior = Auto | Push | Replace

text \<open>The argument of \<open>Navigable::navigate\<close>, with the four fields that
  \<open>Location::navigate\<close> fills in.\<close>

record NavigateParams =
  nav_url :: URL
  source_document :: DocumentId
  exceptions_enabled :: bool
  history_handling :: NavigationHistoryBehavior

text \<open>
  What a call can end with other than a value: a DOM exception with its message, an
  exception of another kind coming out of a collaborator, or the failed assertion of
  dereferencing a null \<open>GC::Ptr\<close> or an empty \<open>Optional\<close>.
\<close>

datatype error =
    SecurityError string
  | SyntaxError string
  | OtherException string
  | AssertionFailed

text \<open>
  The state around a Location object: the browsing context of its relevant global object
  (null when detached), the navigable of that global object, the origin of the entry
  settings object, the incumbent global object's document and transient activation, and
  the calls made so far to \<open>Navigable::navigate\<close> and \<open>Navigable::reload\<close>,
  oldest first. The navigables are taken to be present: Location.cpp dereferences them
  without a test.
\<close>

record World =
  browsing_context :: "BrowsingContext option"
  window_navigable :: Navigable
  entry_settings_origin :: Origin
  incumbent_associated_document :: DocumentId
  incumbent_has_transient_activation :: bool
  navigations :: "(Navigable \<times> NavigateParams) list"
  reloads :: "Navigable list"

text \<open>
  The collaborators. \<open>basic_parse input u st\<close> is
  \<open>URL::Parser::basic_parse(input, {}, &u, st)\<close>: it returns the optional result and the
  record \<open>u\<close> as the parser leaves it. \<open>navigable_navigate\<close> gives the exception
  that \<open>Navigable::navigate\<close> throws, if any.
\<close>

record Env =
  is_same_origin_domain :: "Origin \<Rightarrow> Origin \<Rightarrow> bool"
  basic_parse :: "string \<Rightarrow> URL \<Rightarrow> State \<Rightarrow> URL option \<times> URL"
  parse_url :: "string \<Rightarrow> URL option"
  encoding_parse_url :: "string \<Rightarrow> URL option"
  serialize :: "URL \<Rightarrow> string"
  serialize_path :: "URL \<Rightarrow> string"
  serialized_host :: "URL \<Rightarrow> string"
  url_origin :: "URL \<Rightarrow> Origin"
  origin_serialize :: "Origin \<Rightarrow> string"
  navigable_navigate :: "Navigable \<Rightarrow> NavigateParams \<Rightarrow> error option"

subsection \<open>Relevant document, Location-object navigate, url\<close>

definition relevant_document :: "World \<Rightarrow> Document option" where
  "relevant_document w =
     (case browsing_context w of
        None \<Rightarrow> None
      | Some bc \<Rightarrow> active_document bc)"

text \<open>
  Modelled from the spec: the default argument of \<open>Location::navigate\<close>, declared in
  Location.h (not among the sources); section 4.4 of the specification names it "push".
\<close>

definition default_history_handling :: NavigationHistoryBehavior where
  "default_history_handling = Push"

definition navigate ::
  "Env \<Rightarrow> World \<Rightarrow> URL \<Rightarrow> NavigationHistoryBehavior \<Rightarrow> (error + unit) \<times> World" where
  "navigate env w u requested =
     (let nav = window_navigable w;
          source = incumbent_associated_document w
      in case relevant_document w of
           None \<Rightarrow> (Inl AssertionFailed, w)
         | Some d \<Rightarrow>
             (let hh = (if \<not> is_completely_loaded d \<and> \<not> incumbent_has_transient_activation w
                        then Replace else requested);
                  params = \<lparr> nav_url = u, source_document = source,
                             exceptions_enabled = True, history_handling = hh \<rparr>;
                  w' = w\<lparr> navigations := navigations w @ [(nav, params)] \<rparr>
              in case navigable_navigate env nav params of
                   Some e \<Rightarrow> (Inl e, w')
                 | None \<Rightarrow> (Inr (), w')))"

definition url :: "World \<Rightarrow> URL" where
  "url w = (case relevant_document w of Some d \<Rightarrow> document_url d | None \<Rightarrow> about_blank)"

subsection \<open>Strings\<close>

definition starts_with :: "string \<Rightarrow> char \<Rightarrow> bool" where
  "starts_with s c = (case s of [] \<Rightarrow> False | x # _ \<Rightarrow> x = c)"

text \<open>\<open>StringView::substring_view(start)\<close>; Location.cpp calls it with the
  result of \<open>starts_with\<close>, that is with 0 or 1, which never exceeds the length.\<close>

definition substring_view :: "string \<Rightarrow> nat \<Rightarrow> string" where
  "substring_view s start = drop start s"

definition digit_char :: "nat \<Rightarrow> char" where
  "digit_char n = ''0123456789'' ! n"

text \<open>\<open>String::number\<close> on an unsigned value: its decimal digits.\<close>

function number :: "nat \<Rightarrow> string" where
  "number n = (if n < 10 then [digit_char n] else number (n div 10) @ [digit_char (n mod 10)])"
  by pat_completeness auto
termination
  by (relation "measure (\<lambda>n. n)") auto

definition quoted :: "string \<Rightarrow> string" where
  "quoted s = [CHR 0x27] @ s @ [CHR 0x27]"

definition not_same_origin_domain_message :: string where
  "not_same_origin_domain_message =
     ''Location'' @ [CHR 0x27] @ ''s relevant document is not same origin-domain with the entry settings object''
      @ [CHR 0x27] @ ''s origin''"

definition invalid_url_message :: "string \<Rightarrow> string" where
  "invalid_url_message s = ''Invalid URL '' @ quoted s"

definition invalid_protocol_message :: "string \<Rightarrow> string" where
  "invalid_protocol_message s =
     ''Failed to set protocol. '' @ quoted s @ '' is an invalid protocol''"

subsection \<open>The read accessors\<close>

text \<open>Step 1 of every read accessor, written out in each of them in Location.cpp:
  the relevant document is non-null and its origin is not same origin-domain with the
  entry settings object's origin.\<close>

definition cross_origin_document :: "Env \<Rightarrow> World \<Rightarrow> bool" where
  "cross_origin_document env w =
     (case relevant_document w of
        None \<Rightarrow> False
      | Some d \<Rightarrow> \<not> is_same_origin_domain env (document_origin d) (entry_settings_origin w))"

definition href :: "Env \<Rightarrow> World \<Rightarrow> error + string" where
  "href env w =
     (if cross_origin_document env w then Inl (SecurityError not_same_origin_domain_message)
      else Inr (serialize env (url w)))"

definition origin :: "Env \<Rightarrow> World \<Rightarrow> error + string" where
  "origin env w =
     (if cross_origin_document env w then Inl (SecurityError not_same_origin_domain_message)
      else Inr (origin_serialize env (url_origin env (url w))))"

definition protocol :: "Env \<Rightarrow> World \<Rightarrow> error + string" where
  "protocol env w =
     (if cross_origin_document env w then Inl (SecurityError not_same_origin_domain_message)
      else Inr (url_scheme (url w) @ '':''))"

definition host :: "Env \<Rightarrow> World \<Rightarrow> error + string" where
  "host env w =
     (if cross_origin_document env w then Inl (SecurityError not_same_origin_domain_message)
      else let u = url w in
        if url_host u = None then Inr []
        else case url_port u of
               None \<Rightarrow> Inr (serialized_host env u)
             | Some p \<Rightarrow> Inr (serialized_host env u @ '':'' @ number (unat p)))"

definition hostname :: "Env \<Rightarrow> World \<Rightarrow> error + string" where
  "hostname env w =
     (if cross_origin_document env w then Inl (SecurityError not_same_origin_domain_message)
      else let u = url w in
        if url_host u = None then Inr [] else Inr (serialized_host env u))"

definition port :: "Env \<Rightarrow> World \<Rightarrow> error + string" where
  "port env w =
     (if cross_origin_document env w then Inl (SecurityError not_same_origin_domain_message)
      else case url_port (url w) of
             None \<Rightarrow> Inr []
           | Some p \<Rightarrow> Inr (number (unat p)))"

definition pathname :: "Env \<Rightarrow> World \<Rightarrow> error + string" where
  "pathname env w =
     (if cross_origin_document env w then Inl (SecurityError not_same_origin_domain_message)
      else Inr (serialize_path env (url w)))"

definition search :: "Env \<Rightarrow> World \<Rightarrow> error + string" where
  "search env w =
     (if cross_origin_document env w then Inl (SecurityError not_same_origin_domain_message)
      else case url_query (url w) of
             None \<Rightarrow> Inr []
           | Some q \<Rightarrow> if q = [] then Inr [] else Inr (''?'' @ q))"

definition hash :: "Env \<Rightarrow> World \<Rightarrow> error + string" where
  "hash env w =
     (if cross_origin_document env w then Inl (SecurityError not_same_origin_domain_message)
      else case url_fragment (url w) of
             None \<Rightarrow> Inr []
           | Some f \<Rightarrow> if f = [] then Inr [] else Inr (''#'' @ f))"

subsection \<open>The setters\<close>

text \<open>
  A setter returns its completion and the world it leaves. Steps 1 and 2 are the same in
  every setter but \<open>set_href\<close>; each definition keeps them in the order of Location.cpp.
\<close>

definition set_href :: "Env \<Rightarrow> World \<Rightarrow> string \<Rightarrow> (error + unit) \<times> World" where
  "set_href env w new_href =
     (case relevant_document w of
        None \<Rightarrow> (Inr (), w)
      | Some d \<Rightarrow>
          (case encoding_parse_url env new_href of
             None \<Rightarrow> (Inl (SyntaxError (invalid_url_message new_href)), w)
           | Some u \<Rightarrow> navigate env w u default_history_handling))"

definition set_protocol :: "Env \<Rightarrow> World \<Rightarrow> string \<Rightarrow> (error + unit) \<times> World" where
  "set_protocol env w v =
     (case relevant_document w of
        None \<Rightarrow> (Inr (), w)
      | Some d \<Rightarrow>
          if \<not> is_same_origin_domain env (document_origin d) (entry_settings_origin w)
          then (Inl (SecurityError not_same_origin_domain_message), w)
          else
            (let (possible_failure, copy_url) = basic_parse env (v @ '':'') (url w) SchemeStart
             in if possible_failure = None then (Inl (SyntaxError (invalid_protocol_message v)), w)
                else if \<not> (url_scheme copy_url = ''http'' \<or> url_scheme copy_url = ''https'')
                then (Inr (), w)
                else navigate env w copy_url default_history_handling))"

definition set_host :: "Env \<Rightarrow> World \<Rightarrow> string \<Rightarrow> (error + unit) \<times> World" where
  "set_host env w v =
     (case relevant_document w of
        None \<Rightarrow> (Inr (), w)
      | Some d \<Rightarrow>
          if \<not> is_same_origin_domain env (document_origin d) (entry_settings_origin w)
          then (Inl (SecurityError not_same_origin_domain_message), w)
          else if has_an_opaque_path (url w) then (Inr (), w)
          else
            (let copy_url = snd (basic_parse env v (url w) Host)
             in navigate env w copy_url default_history_handling))"

definition set_hostname :: "Env \<Rightarrow> World \<Rightarrow> string \<Rightarrow> (error + unit) \<times> World" where
  "set_hostname env w v =
     (case relevant_document w of
        None \<Rightarrow> (Inr (), w)
      | Some d \<Rightarrow>
          if \<not> is_same_origin_domain env (document_origin d) (entry_settings_origin w)
          then (Inl (SecurityError not_same_origin_domain_message), w)
          else if has_an_opaque_path (url w) then (Inr (), w)
          else
            (let copy_url = snd (basic_parse env v (url w) Hostname)
             in navigate env w copy_url default_history_handling))"

definition set_port :: "Env \<Rightarrow> World \<Rightarrow> string \<Rightarrow> (error + unit) \<times> World" where
  "set_port env w v =
     (case relevant_document w of
        None \<Rightarrow> (Inr (), w)
      | Some d \<Rightarrow>
          if \<not> is_same_origin_domain env (document_origin d) (entry_settings_origin w)
          then (Inl (SecurityError not_same_origin_domain_message), w)
          else if cannot_have_a_username_or_password_or_port (url w) then (Inr (), w)
          else
            (let copy_url =
                   (if v = [] then (url w)\<lparr> url_port := None \<rparr>
                    else snd (basic_parse env v (url w) Port))
             in navigate env w copy_url default_history_handling))"

definition set_pathname :: "Env \<Rightarrow> World \<Rightarrow> string \<Rightarrow> (error + unit) \<times> World" where
  "set_pathname env w v =
     (case relevant_document w of
        None \<Rightarrow> (Inr (), w)
      | Some d \<Rightarrow>
          if \<not> is_same_origin_domain env (document_origin d) (entry_settings_origin w)
          then (Inl (SecurityError not_same_origin_domain_message), w)
          else if has_an_opaque_path (url w) then (Inr (), w)
          else
            (let copy_url = snd (basic_parse env v ((url w)\<lparr> url_paths := Segments [] \<rparr>) PathStart)
             in navigate env w copy_url default_history_handling))"

definition set_search :: "Env \<Rightarrow> World \<Rightarrow> string \<Rightarrow> (error + unit) \<times> World" where
  "set_search env w v =
     (case relevant_document w of
        None \<Rightarrow> (Inr (), w)
      | Some d \<Rightarrow>
          if \<not> is_same_origin_domain env (document_origin d) (entry_settings_origin w)
          then (Inl (SecurityError not_same_origin_domain_message), w)
          else
            (let copy_url =
                   (if v = [] then (url w)\<lparr> url_query := None \<rparr>
                    else
                      (let input = substring_view v (of_bool (starts_with v CHR ''?''))
                       in snd (basic_parse env input ((url w)\<lparr> url_query := Some [] \<rparr>) Query)))
             in navigate env w copy_url default_history_handling))"

text \<open>
  In step 8 of \<open>set_hash\<close> an \<open>Optional<String>\<close> is compared with a \<open>String\<close>:
  they are equal when the optional holds that string.
\<close>

definition set_hash :: "Env \<Rightarrow> World \<Rightarrow> string \<Rightarrow> (error + unit) \<times> World" where
  "set_hash env w v =
     (case relevant_document w of
        None \<Rightarrow> (Inr (), w)
      | Some d \<Rightarrow>
          if \<not> is_same_origin_domain env (document_origin d) (entry_settings_origin w)
          then (Inl (SecurityError not_same_origin_domain_message), w)
          else
            (let this_url_fragment = (case url_fragment (url w) of Some f \<Rightarrow> f | None \<Rightarrow> []);
                 input = substring_view v (of_bool (starts_with v CHR ''#''));
                 copy_url = snd (basic_parse env input ((url w)\<lparr> url_fragment := Some [] \<rparr>) Fragment)
             in if url_fragment copy_url = Some this_url_fragment then (Inr (), w)
                else navigate env w copy_url default_history_handling))"

subsection \<open>reload, replace, assign\<close>

text \<open>\<open>Location::reload\<close> returns nothing and has no exceptional result; step 3 of the
  standard (the origin check) is a FIXME in Location.cpp.\<close>

definition reload :: "World \<Rightarrow> World" where
  "reload w =
     (case relevant_document w of
        None \<Rightarrow> w
      | Some document \<Rightarrow> w\<lparr> reloads := reloads w @ [navigable document] \<rparr>)"

definition replace :: "Env \<Rightarrow> World \<Rightarrow> string \<Rightarrow> (error + unit) \<times> World" where
  "replace env w s =
     (case relevant_document w of
        None \<Rightarrow> (Inr (), w)
      | Some d \<Rightarrow>
          (case parse_url env s of
             None \<Rightarrow> (Inl (SyntaxError (invalid_url_message s)), w)
           | Some replace_url \<Rightarrow> navigate env w replace_url Replace))"

definition assign :: "Env \<Rightarrow> World \<Rightarrow> string \<Rightarrow> (error + unit) \<times> World" where
  "assign env w s =
     (case relevant_document w of
        None \<Rightarrow> (Inr (), w)
      | Some d \<Rightarrow>
          if \<not> is_same_origin_domain env (document_origin d) (entry_settings_origin w)
          then (Inl (SecurityError not_same_origin_domain_message), w)
          else
            (case parse_url env s of
               None \<Rightarrow> (Inl (SyntaxError (invalid_url_message s)), w)
             | Some assign_url \<Rightarrow> navigate env w assign_url default_history_handling))"

subsection \<open>The object: initialization and [[GetOwnProperty]]\<close>













subsection \<open>An instance of the collaborators\<close>

text \<open>
  The operations are evaluated below on one instance of \<open>Env\<close> and of \<open>ObjectEnv\<close>.
\<close>

text \<open>
  Modelled from the spec: the Fragment state of \<open>URL::Parser::basic_parse\<close> (LibURL is not
  among the sources). By section 4.1 a state-override parse in Fragment state parses
  that component only, against the record it is given, and percent-encodes the characters
  outside the set permitted in a fragment; the set is taken to exclude the controls, the
  space, the double quote, the angle brackets, the backtick and the bytes above the
  tilde (\<open>fragment_state_parse\<close>). A fragment is in encoded form when none of its
  characters is in that set, as the fragment of every URL record is by section 3
  (\<open>is_percent_encoded_fragment\<close>). A parse with SchemeStart as override accepts a scheme token followed by a colon,
  and keeps the record as it is when the token would turn a special scheme into a
  non-special one or back. The other states are not part of the instance: there the
  parse fails and leaves the record alone.
\<close>

definition hex_digit :: "nat \<Rightarrow> char" where
  "hex_digit n = ''0123456789ABCDEF'' ! n"

definition in_fragment_percent_encode_set :: "char \<Rightarrow> bool" where
  "in_fragment_percent_encode_set c =
     (let n = (of_char c :: nat)
      in n < 33 \<or> 126 < n \<or> n = 34 \<or> n = 60 \<or> n = 62 \<or> n = 96)"

definition percent_encode_fragment :: "char \<Rightarrow> string" where
  "percent_encode_fragment c =
     (if in_fragment_percent_encode_set c
      then [CHR ''%'', hex_digit (of_char c div 16), hex_digit (of_char c mod 16)]
      else [c])"

definition fragment_state_parse :: "string \<Rightarrow> URL \<Rightarrow> URL option \<times> URL" where
  "fragment_state_parse input u =
     (let u' = u\<lparr> url_fragment :=
                  Some ((case url_fragment u of Some f \<Rightarrow> f | None \<Rightarrow> [])
                        @ concat (map percent_encode_fragment input)) \<rparr>
      in (Some u', u'))"

definition is_percent_encoded_fragment :: "string \<Rightarrow> bool" where
  "is_percent_encoded_fragment f = list_all (\<lambda>c. \<not> in_fragment_percent_encode_set c) f"

definition is_ascii_alpha :: "char \<Rightarrow> bool" where
  "is_ascii_alpha c =
     (let n = (of_char c :: nat) in (65 \<le> n \<and> n \<le> 90) \<or> (97 \<le> n \<and> n \<le> 122))"

definition is_scheme_char :: "char \<Rightarrow> bool" where
  "is_scheme_char c =
     (let n = (of_char c :: nat)
      in is_ascii_alpha c \<or> (48 \<le> n \<and> n \<le> 57) \<or> n = 43 \<or> n = 45 \<or> n = 46)"

definition to_ascii_lowercase :: "char \<Rightarrow> char" where
  "to_ascii_lowercase c =
     (let n = (of_char c :: nat) in if 65 \<le> n \<and> n \<le> 90 then char_of (n + 32) else c)"

definition is_special_scheme :: "string \<Rightarrow> bool" where
  "is_special_scheme s = (s \<in> set [''http'', ''https'', ''ws'', ''wss'', ''ftp'', ''file''])"

definition example_basic_parse :: "string \<Rightarrow> URL \<Rightarrow> State \<Rightarrow> URL option \<times> URL" where
  "example_basic_parse input u st =
     (case st of
        Fragment \<Rightarrow> fragment_state_parse input u
      | SchemeStart \<Rightarrow>
          (case rev input of
             [] \<Rightarrow> (None, u)
           | c # rest \<Rightarrow>
               (let token = rev rest
                in if c = CHR '':'' \<and> token \<noteq> [] \<and> is_ascii_alpha (hd token)
                      \<and> list_all is_scheme_char token
                   then (let buffer = map to_ascii_lowercase token
                         in if is_special_scheme (url_scheme u) \<noteq> is_special_scheme buffer
                            then (Some u, u)
                            else (let u' = u\<lparr> url_scheme := buffer \<rparr> in (Some u', u')))
                   else (None, u)))
      | _ \<Rightarrow> (None, u))"

text \<open>The full parse of the instance reads \<open>http://host/segment\<close> and nothing else.\<close>

definition example_parse_url :: "string \<Rightarrow> URL option" where
  "example_parse_url s =
     (let rest = drop 7 s;
          h = takeWhile (\<lambda>c. c \<noteq> CHR ''/'') rest
      in if take 7 s = ''http://'' \<and> h \<noteq> []
         then Some \<lparr> url_scheme = ''http'', url_username = [], url_password = [],
                     url_host = Some (Domain h), url_port = None,
                     url_paths = Segments [drop (Suc (length h)) rest],
                     url_query = None, url_fragment = None \<rparr>
         else None)"

definition example_serialized_host :: "URL \<Rightarrow> string" where
  "example_serialized_host u =
     (case url_host u of
        Some (Domain d) \<Rightarrow> d
      | Some (OpaqueHost h) \<Rightarrow> h
      | Some (IPv4 a) \<Rightarrow>
          number (unat a div 16777216) @ ''.'' @ number (unat a div 65536 mod 256) @ ''.''
          @ number (unat a div 256 mod 256) @ ''.'' @ number (unat a mod 256)
      | _ \<Rightarrow> [])"

definition example_serialize_path :: "URL \<Rightarrow> string" where
  "example_serialize_path u =
     (case url_paths u of
        OpaquePath p \<Rightarrow> p
      | Segments segs \<Rightarrow> concat (map (\<lambda>seg. ''/'' @ seg) segs))"

definition example_serialize :: "URL \<Rightarrow> string" where
  "example_serialize u =
     url_scheme u @ '':''
     @ (if url_host u = None then []
        else ''//'' @ example_serialized_host u
             @ (case url_port u of None \<Rightarrow> [] | Some p \<Rightarrow> '':'' @ number (unat p)))
     @ example_serialize_path u
     @ (case url_query u of None \<Rightarrow> [] | Some q \<Rightarrow> ''?'' @ q)
     @ (case url_fragment u of None \<Rightarrow> [] | Some f \<Rightarrow> ''#'' @ f)"

definition example_url_origin :: "URL \<Rightarrow> Origin" where
  "example_url_origin u =
     (case url_host u of
        Some h \<Rightarrow> if is_special_scheme (url_scheme u) \<and> url_scheme u \<noteq> ''file''
                  then TupleOrigin (url_scheme u) h (url_port u) None
                  else OpaqueOrigin 0
      | None \<Rightarrow> OpaqueOrigin 0)"

definition example_origin_serialize :: "Origin \<Rightarrow> string" where
  "example_origin_serialize og =
     (case og of
        OpaqueOrigin _ \<Rightarrow> ''null''
      | TupleOrigin sch h p _ \<Rightarrow>
          sch @ ''://''
          @ example_serialized_host \<lparr> url_scheme = sch, url_username = [], url_password = [],
              url_host = Some h, url_port = p, url_paths = Segments [], url_query = None,
              url_fragment = None \<rparr>
          @ (case p of None \<Rightarrow> [] | Some n \<Rightarrow> '':'' @ number (unat n)))"

definition example_env :: Env where
  "example_env =
     \<lparr> is_same_origin_domain = (\<lambda>a b. a = b),
       basic_parse = example_basic_parse,
       parse_url = example_parse_url,
       encoding_parse_url = example_parse_url,
       serialize = example_serialize,
       serialize_path = example_serialize_path,
       serialized_host = example_serialized_host,
       url_origin = example_url_origin,
       origin_serialize = example_origin_serialize,
       navigable_navigate = (\<lambda>nav params. None) \<rparr>"

text \<open>The document at \<open>http://a.test:8080/p?q#f\<close>, and three worlds around it: the caller
  of the same origin, the caller of another origin, and no browsing context.\<close>

definition example_url :: URL where
  "example_url =
     \<lparr> url_scheme = ''http'', url_username = [], url_password = [],
       url_host = Some (Domain ''a.test''), url_port = Some 8080,
       url_paths = Segments [''p''], url_query = Some ''q'', url_fragment = Some ''f'' \<rparr>"

definition a_test :: Origin where
  "a_test = TupleOrigin ''http'' (Domain ''a.test'') (Some 8080) None"

definition b_test :: Origin where
  "b_test = TupleOrigin ''http'' (Domain ''b.test'') None None"

definition document_at :: "URL \<Rightarrow> Document" where
  "document_at u =
     \<lparr> document_id = 1, document_origin = a_test, document_url = u,
       is_completely_loaded = True, navigable = 7 \<rparr>"

definition world_of :: "Document \<Rightarrow> Origin \<Rightarrow> World" where
  "world_of d caller =
     \<lparr> browsing_context = Some \<lparr> active_document = Some d \<rparr>,
       window_navigable = 7, entry_settings_origin = caller,
       incumbent_associated_document = 2, incumbent_has_transient_activation = False,
       navigations = [], reloads = [] \<rparr>"

definition same_origin_world :: World where
  "same_origin_world = world_of (document_at example_url) a_test"

definition cross_origin_world :: World where
  "cross_origin_world = world_of (document_at example_url) b_test"

definition detached_world :: World where
  "detached_world = (world_of (document_at example_url) a_test)\<lparr> browsing_context := None \<rparr>"

definition loading_world :: World where
  "loading_world =
     world_of ((document_at example_url)\<lparr> is_completely_loaded := False \<rparr>) a_test"

text \<open>Three more documents: at \<open>file:///x\<close>, whose URL cannot have a port and has no
  opaque path; at \<open>mailto:x\<close>, whose path is opaque; and at
  \<open>http://a.test:8080/p?q##x\<close>, whose fragment is \<open>#x\<close>.\<close>

definition file_url :: URL where
  "file_url =
     \<lparr> url_scheme = ''file'', url_username = [], url_password = [],
       url_host = Some EmptyHost, url_port = None,
       url_paths = Segments [''x''], url_query = None, url_fragment = None \<rparr>"

definition mailto_url :: URL where
  "mailto_url =
     \<lparr> url_scheme = ''mailto'', url_username = [], url_password = [],
       url_host = None, url_port = None,
       url_paths = OpaquePath ''x'', url_query = None, url_fragment = None \<rparr>"

definition double_hash_url :: URL where
  "double_hash_url = example_url\<lparr> url_fragment := Some ''#x'' \<rparr>"

definition file_world :: World where
  "file_world = world_of (document_at file_url) a_test"

definition mailto_world :: World where
  "mailto_world = world_of (document_at mailto_url) a_test"

definition cross_origin_mailto_world :: World where
  "cross_origin_mailto_world = world_of (document_at mailto_url) b_test"

definition double_hash_world :: World where
  "double_hash_world = world_of (document_at double_hash_url) a_test"








text \<open>Whether a completion is a SyntaxError.\<close>

definition is_syntax_error :: "error + 'a \<Rightarrow> bool" where
  "is_syntax_error r = (case r of Inl (SyntaxError _) \<Rightarrow> True | _ \<Rightarrow> False)"

section \<open>Properties\<close>

declare number.simps [simp del]

subsection \<open>Auxiliary facts\<close>

lemma navigate_Some:
  "relevant_document w = Some d \<Longrightarrow>
   navigate env w u requested =
     (let params = \<lparr> nav_url = u, source_document = incumbent_associated_document w,
                      exceptions_enabled = True,
                      history_handling = (if \<not> is_completely_loaded d \<and> \<not> incumbent_has_transient_activation w
                                          then Replace else requested) \<rparr>
      in (case navigable_navigate env (window_navigable w) params of Some e \<Rightarrow> Inl e | None \<Rightarrow> Inr (),
          w\<lparr> navigations := navigations w @ [(window_navigable w, params)] \<rparr>))"
  by (simp add: navigate_def Let_def split: option.splits)

lemma navigations_navigate:
  "relevant_document w = Some d \<Longrightarrow>
   navigations (snd (navigate env w u requested)) =
     navigations w @ [(window_navigable w,
        \<lparr> nav_url = u, source_document = incumbent_associated_document w,
          exceptions_enabled = True,
          history_handling = (if \<not> is_completely_loaded d \<and> \<not> incumbent_has_transient_activation w
                              then Replace else requested) \<rparr>)]"
  by (simp add: navigate_Some Let_def)

lemma url_Some: "relevant_document w = Some d \<Longrightarrow> url w = document_url d"
  by (simp add: url_def)

lemma cross_origin_document_Some:
  "relevant_document w = Some d \<Longrightarrow>
   cross_origin_document env w = (\<not> is_same_origin_domain env (document_origin d) (entry_settings_origin w))"
  by (simp add: cross_origin_document_def)

lemma relevant_document_world_of: "relevant_document (world_of d c) = Some d"
  by (simp add: relevant_document_def world_of_def)

lemma entry_settings_origin_world_of: "entry_settings_origin (world_of d c) = c"
  by (simp add: world_of_def)

lemma example_same_origin: "is_same_origin_domain example_env a b = (a = b)"
  by (simp add: example_env_def)

lemma a_test_neq_b_test: "a_test \<noteq> b_test"
  by (simp add: a_test_def b_test_def)

lemma number_8080: "number 8080 = ''8080''"
  by (simp add: number.simps digit_char_def)

lemma example_components:
  "serialize example_env example_url = ''http://a.test:8080/p?q#f''"
  "origin_serialize example_env (url_origin example_env example_url) = ''http://a.test:8080''"
  "serialized_host example_env example_url = ''a.test''"
  "serialize_path example_env example_url = ''/p''"
  by (simp_all add: example_env_def example_serialize_def example_serialized_host_def
      example_serialize_path_def example_origin_serialize_def example_url_origin_def
      is_special_scheme_def example_url_def number_8080)

lemma relevant_document_detached: "relevant_document detached_world = None"
  by (simp add: detached_world_def relevant_document_def world_of_def)

lemma relevant_document_entry_origin:
  "relevant_document (w\<lparr> entry_settings_origin := caller \<rparr>) = relevant_document w"
  by (simp add: relevant_document_def)

lemma example_parse_url_colons: "example_parse_url ''::'' = None"
  by (simp add: example_parse_url_def)

lemma example_parse_url_nonsense: "parse_url example_env ''nonsense'' = None"
  by (simp add: example_env_def example_parse_url_def)

lemma example_parse_url_b_test:
  "parse_url example_env ''http://b.test/x'' =
     Some \<lparr> url_scheme = ''http'', url_username = [], url_password = [],
            url_host = Some (Domain ''b.test''), url_port = None,
            url_paths = Segments [''x''], url_query = None, url_fragment = None \<rparr>"
  by (simp add: example_env_def example_parse_url_def)

lemma fst_navigate_not_syntax_error:
  assumes "relevant_document w = Some d"
    and "\<forall>nav params m. navigable_navigate env nav params \<noteq> Some (SyntaxError m)"
  shows "\<not> is_syntax_error (fst (navigate env w u requested))"
proof -
  let ?r = "navigable_navigate env (window_navigable w)
     \<lparr> nav_url = u, source_document = incumbent_associated_document w,
       exceptions_enabled = True,
       history_handling = (if \<not> is_completely_loaded d \<and> \<not> incumbent_has_transient_activation w
                           then Replace else requested) \<rparr>"
  have f: "fst (navigate env w u requested) = (case ?r of Some e \<Rightarrow> Inl e | None \<Rightarrow> Inr ())"
    by (simp add: navigate_Some [OF assms(1)] Let_def)
  show ?thesis
  proof (cases ?r)
    case None
    then show ?thesis by (simp add: f is_syntax_error_def)
  next
    case (Some e)
    with assms(2) have "\<forall>m. e \<noteq> SyntaxError m" by metis
    with Some show ?thesis
      by (cases e) (simp_all add: f is_syntax_error_def)
  qed
qed

lemma example_scheme_parse:
  "basic_parse example_env ''https:'' example_url SchemeStart
     = (Some (example_url\<lparr> url_scheme := ''https'' \<rparr>), example_url\<lparr> url_scheme := ''https'' \<rparr>)"
  "basic_parse example_env ''ftp:'' example_url SchemeStart
     = (Some (example_url\<lparr> url_scheme := ''ftp'' \<rparr>), example_url\<lparr> url_scheme := ''ftp'' \<rparr>)"
  "basic_parse example_env ''1x:'' example_url SchemeStart = (None, example_url)"
  by (simp_all add: example_env_def example_basic_parse_def Let_def is_ascii_alpha_def
      is_scheme_char_def to_ascii_lowercase_def is_special_scheme_def example_url_def)

lemma same_origin_world_facts:
  "relevant_document same_origin_world = Some (document_at example_url)"
  "is_same_origin_domain example_env (document_origin (document_at example_url))
     (entry_settings_origin same_origin_world)"
  "document_url (document_at example_url) = example_url"
  "navigations same_origin_world = []"
  "window_navigable same_origin_world = 7"
  "incumbent_associated_document same_origin_world = 2"
  "is_completely_loaded (document_at example_url)"
proof -
  show "relevant_document same_origin_world = Some (document_at example_url)"
    by (simp add: same_origin_world_def relevant_document_world_of)
  show "is_same_origin_domain example_env (document_origin (document_at example_url))
     (entry_settings_origin same_origin_world)"
    by (simp add: same_origin_world_def example_same_origin entry_settings_origin_world_of
        document_at_def)
  show "document_url (document_at example_url) = example_url"
    "is_completely_loaded (document_at example_url)"
    by (simp_all add: document_at_def)
  show "navigations same_origin_world = []" "window_navigable same_origin_world = 7"
    "incumbent_associated_document same_origin_world = 2"
    by (simp_all add: same_origin_world_def world_of_def)
qed

lemma example_navigate_never_throws: "navigable_navigate example_env nav params = None"
  by (simp add: example_env_def)

lemma navigate_basic_parse_update:
  "navigate (env\<lparr> basic_parse := p \<rparr>) w u requested = navigate env w u requested"
  by (simp add: navigate_def Let_def split: option.splits)

lemma mailto_world_facts:
  "relevant_document mailto_world = Some (document_at mailto_url)"
  "is_same_origin_domain example_env (document_origin (document_at mailto_url))
     (entry_settings_origin mailto_world)"
  "has_an_opaque_path (document_url (document_at mailto_url))"
proof -
  show "relevant_document mailto_world = Some (document_at mailto_url)"
    by (simp add: mailto_world_def relevant_document_world_of)
  show "is_same_origin_domain example_env (document_origin (document_at mailto_url))
     (entry_settings_origin mailto_world)"
    by (simp add: mailto_world_def example_same_origin entry_settings_origin_world_of
        document_at_def)
  show "has_an_opaque_path (document_url (document_at mailto_url))"
    by (simp add: document_at_def mailto_url_def has_an_opaque_path_def)
qed

lemma file_world_facts:
  "relevant_document file_world = Some (document_at file_url)"
  "is_same_origin_domain example_env (document_origin (document_at file_url))
     (entry_settings_origin file_world)"
  "cannot_have_a_username_or_password_or_port (document_url (document_at file_url))"
  "\<not> has_an_opaque_path (document_url (document_at file_url))"
  "navigations file_world = []"
proof -
  show "relevant_document file_world = Some (document_at file_url)"
    by (simp add: file_world_def relevant_document_world_of)
  show "is_same_origin_domain example_env (document_origin (document_at file_url))
     (entry_settings_origin file_world)"
    by (simp add: file_world_def example_same_origin entry_settings_origin_world_of
        document_at_def)
  show "cannot_have_a_username_or_password_or_port (document_url (document_at file_url))"
    by (simp add: document_at_def file_url_def cannot_have_a_username_or_password_or_port_def)
  show "\<not> has_an_opaque_path (document_url (document_at file_url))"
    by (simp add: document_at_def file_url_def has_an_opaque_path_def)
  show "navigations file_world = []"
    by (simp add: file_world_def world_of_def)
qed

lemma cross_origin_mailto_world_facts:
  "relevant_document cross_origin_mailto_world = Some (document_at mailto_url)"
  "\<not> is_same_origin_domain example_env (document_origin (document_at mailto_url))
     (entry_settings_origin cross_origin_mailto_world)"
proof -
  show "relevant_document cross_origin_mailto_world = Some (document_at mailto_url)"
    by (simp add: cross_origin_mailto_world_def relevant_document_world_of)
  show "\<not> is_same_origin_domain example_env (document_origin (document_at mailto_url))
     (entry_settings_origin cross_origin_mailto_world)"
    by (simp add: cross_origin_mailto_world_def example_same_origin
        entry_settings_origin_world_of document_at_def a_test_neq_b_test)
qed

lemma set_hash_unchanged:
  assumes "url_fragment (snd (basic_parse env (substring_view v (of_bool (starts_with v CHR ''#'')))
                ((url w)\<lparr> url_fragment := Some [] \<rparr>) Fragment)) = Some current"
    and "current = (case url_fragment (url w) of Some f \<Rightarrow> f | None \<Rightarrow> [])"
  shows "snd (set_hash env w v) = w"
proof (cases "relevant_document w")
  case None
  then show ?thesis by (simp add: set_hash_def)
next
  case (Some d)
  show ?thesis
  proof (cases "is_same_origin_domain env (document_origin d) (entry_settings_origin w)")
    case False
    with Some show ?thesis by (simp add: set_hash_def)
  next
    case True
    with Some assms show ?thesis
      by (simp add: set_hash_def Let_def split del: split_of_bool)
  qed
qed

lemma strip_leading_hash:
  "substring_view (CHR ''#'' # f) (of_bool (starts_with (CHR ''#'' # f) CHR ''#'')) = f"
  "\<not> starts_with f CHR ''#'' \<Longrightarrow> substring_view f (of_bool (starts_with f CHR ''#'')) = f"
  by (simp_all add: substring_view_def starts_with_def)

lemma example_fragment_parse:
  "basic_parse example_env ''f'' (u\<lparr> url_fragment := Some [] \<rparr>) Fragment
     = (Some (u\<lparr> url_fragment := Some ''f'' \<rparr>), u\<lparr> url_fragment := Some ''f'' \<rparr>)"
  "basic_parse example_env ''x'' (u\<lparr> url_fragment := Some [] \<rparr>) Fragment
     = (Some (u\<lparr> url_fragment := Some ''x'' \<rparr>), u\<lparr> url_fragment := Some ''x'' \<rparr>)"
  "basic_parse example_env ''#x'' (u\<lparr> url_fragment := Some [] \<rparr>) Fragment
     = (Some (u\<lparr> url_fragment := Some ''#x'' \<rparr>), u\<lparr> url_fragment := Some ''#x'' \<rparr>)"
  by (simp_all add: example_env_def example_basic_parse_def fragment_state_parse_def Let_def
      percent_encode_fragment_def in_fragment_percent_encode_set_def)

lemma percent_encode_encoded:
  "is_percent_encoded_fragment f \<Longrightarrow> concat (map percent_encode_fragment f) = f"
  by (induction f) (simp_all add: is_percent_encoded_fragment_def percent_encode_fragment_def)

lemma fragment_state_parse_encoded:
  assumes "is_percent_encoded_fragment f"
  shows "url_fragment (snd (fragment_state_parse f (u\<lparr> url_fragment := Some [] \<rparr>))) = Some f"
  using percent_encode_encoded [OF assms] by (simp add: fragment_state_parse_def Let_def)

lemma example_fragment_state:
  "basic_parse example_env input u Fragment = fragment_state_parse input u"
  by (simp add: example_env_def example_basic_parse_def)

lemma double_hash_world_facts:
  "relevant_document double_hash_world = Some (document_at double_hash_url)"
  "is_same_origin_domain example_env (document_origin (document_at double_hash_url))
     (entry_settings_origin double_hash_world)"
  "url double_hash_world = double_hash_url"
  "url_fragment double_hash_url = Some ''#x''"
  "navigations double_hash_world = []"
  "window_navigable double_hash_world = 7"
  "incumbent_associated_document double_hash_world = 2"
  "is_completely_loaded (document_at double_hash_url)"
proof -
  show d: "relevant_document double_hash_world = Some (document_at double_hash_url)"
    by (simp add: double_hash_world_def relevant_document_world_of)
  show "is_same_origin_domain example_env (document_origin (document_at double_hash_url))
     (entry_settings_origin double_hash_world)"
    by (simp add: double_hash_world_def example_same_origin entry_settings_origin_world_of
        document_at_def)
  show "url double_hash_world = double_hash_url"
    by (simp add: url_Some [OF d] document_at_def)
  show "url_fragment double_hash_url = Some ''#x''"
    by (simp add: double_hash_url_def)
  show "navigations double_hash_world = []" "window_navigable double_hash_world = 7"
    "incumbent_associated_document double_hash_world = 2"
    by (simp_all add: double_hash_world_def world_of_def)
  show "is_completely_loaded (document_at double_hash_url)"
    by (simp add: document_at_def)
qed




subsection \<open>The read accessors and the security gate\<close>

text \<open>
  Claim C1. For each of the nine read accessors (href, origin, protocol, host, hostname,
  port, pathname, search, hash): when the relevant document is non-null and its origin is
  not same origin-domain with the origin of the entry settings object, the accessor
  throws the SecurityError, a fixed exception that carries nothing of the URL; when the
  document is same origin-domain, the accessor throws nothing and returns its component
  of the document's URL.
\<close>

theorem read_accessors_security_gate:
  assumes "relevant_document w = Some d"
  shows
  "(\<not> is_same_origin_domain env (document_origin d) (entry_settings_origin w) \<longrightarrow>
      href env w = Inl (SecurityError not_same_origin_domain_message)
    \<and> origin env w = Inl (SecurityError not_same_origin_domain_message)
    \<and> protocol env w = Inl (SecurityError not_same_origin_domain_message)
    \<and> host env w = Inl (SecurityError not_same_origin_domain_message)
    \<and> hostname env w = Inl (SecurityError not_same_origin_domain_message)
    \<and> port env w = Inl (SecurityError not_same_origin_domain_message)
    \<and> pathname env w = Inl (SecurityError not_same_origin_domain_message)
    \<and> search env w = Inl (SecurityError not_same_origin_domain_message)
    \<and> hash env w = Inl (SecurityError not_same_origin_domain_message))
   \<and> (is_same_origin_domain env (document_origin d) (entry_settings_origin w) \<longrightarrow>
      href env w = Inr (serialize env (document_url d))
    \<and> origin env w = Inr (origin_serialize env (url_origin env (document_url d)))
    \<and> protocol env w = Inr (url_scheme (document_url d) @ '':'')
    \<and> host env w =
        Inr (if url_host (document_url d) = None then []
             else case url_port (document_url d) of
                    None \<Rightarrow> serialized_host env (document_url d)
                  | Some p \<Rightarrow> serialized_host env (document_url d) @ '':'' @ number (unat p))
    \<and> hostname env w =
        Inr (if url_host (document_url d) = None then [] else serialized_host env (document_url d))
    \<and> port env w =
        Inr (case url_port (document_url d) of None \<Rightarrow> [] | Some p \<Rightarrow> number (unat p))
    \<and> pathname env w = Inr (serialize_path env (document_url d))
    \<and> search env w =
        Inr (case url_query (document_url d) of
               None \<Rightarrow> [] | Some q \<Rightarrow> if q = [] then [] else ''?'' @ q)
    \<and> hash env w =
        Inr (case url_fragment (document_url d) of
               None \<Rightarrow> [] | Some f \<Rightarrow> if f = [] then [] else ''#'' @ f))"
proof (intro conjI impI)
  assume c: "\<not> is_same_origin_domain env (document_origin d) (entry_settings_origin w)"
  then have g: "cross_origin_document env w"
    using assms by (simp add: cross_origin_document_Some)
  show "href env w = Inl (SecurityError not_same_origin_domain_message)" using g by (simp add: href_def)
  show "origin env w = Inl (SecurityError not_same_origin_domain_message)" using g by (simp add: origin_def)
  show "protocol env w = Inl (SecurityError not_same_origin_domain_message)" using g by (simp add: protocol_def)
  show "host env w = Inl (SecurityError not_same_origin_domain_message)" using g by (simp add: host_def)
  show "hostname env w = Inl (SecurityError not_same_origin_domain_message)" using g by (simp add: hostname_def)
  show "port env w = Inl (SecurityError not_same_origin_domain_message)" using g by (simp add: port_def)
  show "pathname env w = Inl (SecurityError not_same_origin_domain_message)" using g by (simp add: pathname_def)
  show "search env w = Inl (SecurityError not_same_origin_domain_message)" using g by (simp add: search_def)
  show "hash env w = Inl (SecurityError not_same_origin_domain_message)" using g by (simp add: hash_def)
next
  assume s: "is_same_origin_domain env (document_origin d) (entry_settings_origin w)"
  then have g: "\<not> cross_origin_document env w"
    using assms by (simp add: cross_origin_document_Some)
  note u = url_Some [OF assms]
  show "href env w = Inr (serialize env (document_url d))" using g by (simp add: href_def u)
  show "origin env w = Inr (origin_serialize env (url_origin env (document_url d)))"
    using g by (simp add: origin_def u)
  show "protocol env w = Inr (url_scheme (document_url d) @ '':'')" using g by (simp add: protocol_def u)
  show "host env w =
        Inr (if url_host (document_url d) = None then []
             else case url_port (document_url d) of
                    None \<Rightarrow> serialized_host env (document_url d)
                  | Some p \<Rightarrow> serialized_host env (document_url d) @ '':'' @ number (unat p))"
    using g by (simp add: host_def u Let_def split: option.splits)
  show "hostname env w =
        Inr (if url_host (document_url d) = None then [] else serialized_host env (document_url d))"
    using g by (simp add: hostname_def u Let_def)
  show "port env w =
        Inr (case url_port (document_url d) of None \<Rightarrow> [] | Some p \<Rightarrow> number (unat p))"
    using g by (simp add: port_def u split: option.splits)
  show "pathname env w = Inr (serialize_path env (document_url d))" using g by (simp add: pathname_def u)
  show "search env w =
        Inr (case url_query (document_url d) of
               None \<Rightarrow> [] | Some q \<Rightarrow> if q = [] then [] else ''?'' @ q)"
    using g by (simp add: search_def u split: option.splits)
  show "hash env w =
        Inr (case url_fragment (document_url d) of
               None \<Rightarrow> [] | Some f \<Rightarrow> if f = [] then [] else ''#'' @ f)"
    using g by (simp add: hash_def u split: option.splits)
qed

theorem read_accessors_security_gate_witness:
  "relevant_document cross_origin_world = Some (document_at example_url)
   \<and> \<not> is_same_origin_domain example_env (document_origin (document_at example_url))
         (entry_settings_origin cross_origin_world)
   \<and> href example_env cross_origin_world = Inl (SecurityError not_same_origin_domain_message)
   \<and> origin example_env cross_origin_world = Inl (SecurityError not_same_origin_domain_message)
   \<and> relevant_document same_origin_world = Some (document_at example_url)
   \<and> is_same_origin_domain example_env (document_origin (document_at example_url))
         (entry_settings_origin same_origin_world)
   \<and> href example_env same_origin_world = Inr ''http://a.test:8080/p?q#f''
   \<and> origin example_env same_origin_world = Inr ''http://a.test:8080''
   \<and> protocol example_env same_origin_world = Inr ''http:''
   \<and> host example_env same_origin_world = Inr ''a.test:8080''
   \<and> hostname example_env same_origin_world = Inr ''a.test''
   \<and> port example_env same_origin_world = Inr ''8080''
   \<and> pathname example_env same_origin_world = Inr ''/p''
   \<and> search example_env same_origin_world = Inr ''?q''
   \<and> hash example_env same_origin_world = Inr ''#f''"
proof -
  have dc: "relevant_document cross_origin_world = Some (document_at example_url)"
    by (simp add: cross_origin_world_def relevant_document_world_of)
  have ds: "relevant_document same_origin_world = Some (document_at example_url)"
    by (simp add: same_origin_world_def relevant_document_world_of)
  have c: "\<not> is_same_origin_domain example_env (document_origin (document_at example_url))
             (entry_settings_origin cross_origin_world)"
    by (simp add: example_same_origin cross_origin_world_def entry_settings_origin_world_of
        document_at_def a_test_neq_b_test)
  have s: "is_same_origin_domain example_env (document_origin (document_at example_url))
             (entry_settings_origin same_origin_world)"
    by (simp add: example_same_origin same_origin_world_def entry_settings_origin_world_of
        document_at_def)
  have u: "document_url (document_at example_url) = example_url"
    by (simp add: document_at_def)
  have f: "url_host example_url = Some (Domain ''a.test'')" "url_port example_url = Some 8080"
    "url_scheme example_url = ''http''" "url_query example_url = Some ''q''"
    "url_fragment example_url = Some ''f''"
    by (simp_all add: example_url_def)
  from read_accessors_security_gate [OF dc, of example_env]
       read_accessors_security_gate [OF ds, of example_env]
  show ?thesis
    using dc ds c s by (simp add: u f example_components number_8080)
qed

subsection \<open>Location-object navigate\<close>

text \<open>
  Claim C6. For every URL and every requested history handling, with a relevant document
  present, Location-object navigate makes exactly one call to the navigable; the history
  handling of that call is "replace" when the document is not completely loaded and the
  incumbent global object has no transient activation, and the requested one otherwise.
\<close>

theorem navigate_forces_replace:
  "relevant_document w = Some d \<Longrightarrow>
   navigations (snd (navigate env w u requested)) =
     navigations w @ [(window_navigable w,
        \<lparr> nav_url = u, source_document = incumbent_associated_document w,
          exceptions_enabled = True,
          history_handling =
            (if \<not> is_completely_loaded d \<and> \<not> incumbent_has_transient_activation w
             then Replace else requested) \<rparr>)]"
  by (rule navigations_navigate)

theorem navigate_forces_replace_witness:
  "relevant_document loading_world
     = Some ((document_at example_url)\<lparr> is_completely_loaded := False \<rparr>)
   \<and> map (history_handling \<circ> snd)
         (navigations (snd (navigate example_env loading_world example_url Push))) = [Replace]
   \<and> relevant_document same_origin_world = Some (document_at example_url)
   \<and> map (history_handling \<circ> snd)
         (navigations (snd (navigate example_env same_origin_world example_url Push))) = [Push]
   \<and> map (history_handling \<circ> snd)
         (navigations (snd (navigate example_env same_origin_world example_url Auto))) = [Auto]"
proof -
  have l: "relevant_document loading_world
             = Some ((document_at example_url)\<lparr> is_completely_loaded := False \<rparr>)"
    by (simp add: loading_world_def relevant_document_world_of)
  have s: "relevant_document same_origin_world = Some (document_at example_url)"
    by (simp add: same_origin_world_def relevant_document_world_of)
  from navigate_forces_replace [OF l, of example_env example_url Push]
       navigate_forces_replace [OF s, of example_env example_url Push]
       navigate_forces_replace [OF s, of example_env example_url Auto]
  show ?thesis
    using l s by (simp add: loading_world_def same_origin_world_def world_of_def document_at_def)
qed

subsection \<open>reload\<close>

text \<open>
  Claim C2. reload makes no same origin-domain check and has no exceptional result,
  whatever the origins of the caller and of the document: without a relevant document it
  does nothing, and with one it invokes the reload of the document's navigable. Changing
  the origin of the entry settings object changes nothing of what reload does.
\<close>

theorem reload_has_no_origin_check:
  "(relevant_document w = None \<longrightarrow> reload w = w)
   \<and> (relevant_document w = Some d \<longrightarrow> reload w = w\<lparr> reloads := reloads w @ [navigable d] \<rparr>)
   \<and> reload (w\<lparr> entry_settings_origin := caller \<rparr>) = (reload w)\<lparr> entry_settings_origin := caller \<rparr>"
  by (simp add: reload_def relevant_document_entry_origin split: option.splits)

theorem reload_has_no_origin_check_witness:
  "relevant_document detached_world = None
   \<and> reload detached_world = detached_world
   \<and> relevant_document cross_origin_world = Some (document_at example_url)
   \<and> \<not> is_same_origin_domain example_env (document_origin (document_at example_url))
         (entry_settings_origin cross_origin_world)
   \<and> reload cross_origin_world = cross_origin_world\<lparr> reloads := [7] \<rparr>"
proof -
  have n: "relevant_document detached_world = None"
    by (rule relevant_document_detached)
  have c: "relevant_document cross_origin_world = Some (document_at example_url)"
    by (simp add: cross_origin_world_def relevant_document_world_of)
  have x: "\<not> is_same_origin_domain example_env (document_origin (document_at example_url))
             (entry_settings_origin cross_origin_world)"
    by (simp add: example_same_origin cross_origin_world_def entry_settings_origin_world_of
        document_at_def a_test_neq_b_test)
  from reload_has_no_origin_check [of detached_world] n
  have r1: "reload detached_world = detached_world"
    by blast
  from reload_has_no_origin_check [of cross_origin_world "document_at example_url"] c
  have r2: "reload cross_origin_world
              = cross_origin_world\<lparr> reloads := reloads cross_origin_world
                                                @ [navigable (document_at example_url)] \<rparr>"
    by blast
  have "reloads cross_origin_world @ [navigable (document_at example_url)] = [7]"
    by (simp add: cross_origin_world_def world_of_def document_at_def)
  with r2 have "reload cross_origin_world = cross_origin_world\<lparr> reloads := [7] \<rparr>"
    by simp
  with r1 n c x show ?thesis
    by simp
qed

subsection \<open>replace and assign\<close>

text \<open>
  Claim C3. Without a relevant document, replace and assign both return success and do
  nothing. With one, replace throws a SyntaxError when the parse of the URL relative to
  the entry settings object fails, and otherwise navigates with history handling
  "replace", whatever the origins; assign first throws a SecurityError when the document
  is not same origin-domain with the entry settings object, then a SyntaxError when the
  parse fails, and otherwise navigates with the default history handling "push", which
  Location-object navigate passes on unless it forces "replace".
\<close>

theorem replace_and_assign:
  "(relevant_document w = None \<longrightarrow>
      replace env w s = (Inr (), w) \<and> assign env w s = (Inr (), w))
   \<and> (relevant_document w = Some d \<longrightarrow>
        (parse_url env s = None \<longrightarrow>
           replace env w s = (Inl (SyntaxError (invalid_url_message s)), w))
      \<and> (parse_url env s = Some u \<longrightarrow>
           replace env w s = navigate env w u Replace
         \<and> navigations (snd (replace env w s)) =
             navigations w @ [(window_navigable w,
               \<lparr> nav_url = u, source_document = incumbent_associated_document w,
                 exceptions_enabled = True, history_handling = Replace \<rparr>)])
      \<and> (\<not> is_same_origin_domain env (document_origin d) (entry_settings_origin w) \<longrightarrow>
           assign env w s = (Inl (SecurityError not_same_origin_domain_message), w))
      \<and> (is_same_origin_domain env (document_origin d) (entry_settings_origin w)
           \<and> parse_url env s = None \<longrightarrow>
           assign env w s = (Inl (SyntaxError (invalid_url_message s)), w))
      \<and> (is_same_origin_domain env (document_origin d) (entry_settings_origin w)
           \<and> parse_url env s = Some u \<longrightarrow>
           assign env w s = navigate env w u Push
         \<and> navigations (snd (assign env w s)) =
             navigations w @ [(window_navigable w,
               \<lparr> nav_url = u, source_document = incumbent_associated_document w,
                 exceptions_enabled = True,
                 history_handling =
                   (if \<not> is_completely_loaded d \<and> \<not> incumbent_has_transient_activation w
                    then Replace else Push) \<rparr>)]))"
proof (intro conjI impI)
  assume "relevant_document w = None"
  then show "replace env w s = (Inr (), w)" "assign env w s = (Inr (), w)"
    by (simp_all add: replace_def assign_def)
next
  assume d: "relevant_document w = Some d"
  { assume "parse_url env s = None"
    then show "replace env w s = (Inl (SyntaxError (invalid_url_message s)), w)"
      using d by (simp add: replace_def) }
  { assume p: "parse_url env s = Some u"
    then show r: "replace env w s = navigate env w u Replace"
      using d by (simp add: replace_def)
    show "navigations (snd (replace env w s)) =
             navigations w @ [(window_navigable w,
               \<lparr> nav_url = u, source_document = incumbent_associated_document w,
                 exceptions_enabled = True, history_handling = Replace \<rparr>)]"
      by (simp add: r navigations_navigate [OF d]) }
  { assume "\<not> is_same_origin_domain env (document_origin d) (entry_settings_origin w)"
    then show "assign env w s = (Inl (SecurityError not_same_origin_domain_message), w)"
      using d by (simp add: assign_def) }
  { assume "is_same_origin_domain env (document_origin d) (entry_settings_origin w)
           \<and> parse_url env s = None"
    then show "assign env w s = (Inl (SyntaxError (invalid_url_message s)), w)"
      using d by (simp add: assign_def) }
  { assume "is_same_origin_domain env (document_origin d) (entry_settings_origin w)
           \<and> parse_url env s = Some u"
    then show a: "assign env w s = navigate env w u Push"
      using d by (simp add: assign_def default_history_handling_def)
    show "navigations (snd (assign env w s)) =
             navigations w @ [(window_navigable w,
               \<lparr> nav_url = u, source_document = incumbent_associated_document w,
                 exceptions_enabled = True,
                 history_handling =
                   (if \<not> is_completely_loaded d \<and> \<not> incumbent_has_transient_activation w
                    then Replace else Push) \<rparr>)]"
      by (simp add: a navigations_navigate [OF d]) }
qed

theorem replace_and_assign_witness:
  "relevant_document detached_world = None
   \<and> replace example_env detached_world ''nonsense'' = (Inr (), detached_world)
   \<and> assign example_env detached_world ''nonsense'' = (Inr (), detached_world)
   \<and> relevant_document cross_origin_world = Some (document_at example_url)
   \<and> \<not> is_same_origin_domain example_env (document_origin (document_at example_url))
         (entry_settings_origin cross_origin_world)
   \<and> parse_url example_env ''nonsense'' = None
   \<and> fst (replace example_env cross_origin_world ''nonsense'')
        = Inl (SyntaxError (invalid_url_message ''nonsense''))
   \<and> fst (assign example_env cross_origin_world ''http://b.test/x'')
        = Inl (SecurityError not_same_origin_domain_message)
   \<and> map (history_handling \<circ> snd)
         (navigations (snd (replace example_env cross_origin_world ''http://b.test/x'')))
        = [Replace]
   \<and> relevant_document same_origin_world = Some (document_at example_url)
   \<and> is_same_origin_domain example_env (document_origin (document_at example_url))
         (entry_settings_origin same_origin_world)
   \<and> fst (assign example_env same_origin_world ''nonsense'')
        = Inl (SyntaxError (invalid_url_message ''nonsense''))
   \<and> map (history_handling \<circ> snd)
         (navigations (snd (assign example_env same_origin_world ''http://b.test/x'')))
        = [Push]"
proof -
  let ?u = "\<lparr> url_scheme = ''http'', url_username = [], url_password = [],
            url_host = Some (Domain ''b.test''), url_port = None,
            url_paths = Segments [''x''], url_query = None, url_fragment = None \<rparr>"
  have n: "relevant_document detached_world = None"
    by (rule relevant_document_detached)
  have c: "relevant_document cross_origin_world = Some (document_at example_url)"
    by (simp add: cross_origin_world_def relevant_document_world_of)
  have s: "relevant_document same_origin_world = Some (document_at example_url)"
    by (simp add: same_origin_world_def relevant_document_world_of)
  have x: "\<not> is_same_origin_domain example_env (document_origin (document_at example_url))
             (entry_settings_origin cross_origin_world)"
    by (simp add: example_same_origin cross_origin_world_def entry_settings_origin_world_of
        document_at_def a_test_neq_b_test)
  have y: "is_same_origin_domain example_env (document_origin (document_at example_url))
             (entry_settings_origin same_origin_world)"
    by (simp add: example_same_origin same_origin_world_def entry_settings_origin_world_of
        document_at_def)
  note p0 = example_parse_url_nonsense and p1 = example_parse_url_b_test
  from replace_and_assign [of detached_world example_env "''nonsense''"] n
  have 1: "replace example_env detached_world ''nonsense'' = (Inr (), detached_world)"
    "assign example_env detached_world ''nonsense'' = (Inr (), detached_world)"
    by blast+
  from replace_and_assign [of cross_origin_world example_env "''nonsense''" "document_at example_url"] c p0
  have 2: "replace example_env cross_origin_world ''nonsense''
             = (Inl (SyntaxError (invalid_url_message ''nonsense'')), cross_origin_world)"
    by blast
  from replace_and_assign [of cross_origin_world example_env "''http://b.test/x''" "document_at example_url" ?u] c x p1
  have 3: "assign example_env cross_origin_world ''http://b.test/x''
             = (Inl (SecurityError not_same_origin_domain_message), cross_origin_world)"
    and 4: "navigations (snd (replace example_env cross_origin_world ''http://b.test/x'')) =
             navigations cross_origin_world @ [(window_navigable cross_origin_world,
               \<lparr> nav_url = ?u, source_document = incumbent_associated_document cross_origin_world,
                 exceptions_enabled = True, history_handling = Replace \<rparr>)]"
    by blast+
  from replace_and_assign [of same_origin_world example_env "''nonsense''" "document_at example_url"] s y p0
  have 5: "assign example_env same_origin_world ''nonsense''
             = (Inl (SyntaxError (invalid_url_message ''nonsense'')), same_origin_world)"
    by blast
  from replace_and_assign [of same_origin_world example_env "''http://b.test/x''" "document_at example_url" ?u] s y p1
  have 6: "navigations (snd (assign example_env same_origin_world ''http://b.test/x'')) =
             navigations same_origin_world @ [(window_navigable same_origin_world,
               \<lparr> nav_url = ?u, source_document = incumbent_associated_document same_origin_world,
                 exceptions_enabled = True,
                 history_handling =
                   (if \<not> is_completely_loaded (document_at example_url)
                         \<and> \<not> incumbent_has_transient_activation same_origin_world
                    then Replace else Push) \<rparr>)]"
    by blast
  have 7: "navigations cross_origin_world = []" "navigations same_origin_world = []"
    "is_completely_loaded (document_at example_url)"
    by (simp_all add: cross_origin_world_def same_origin_world_def world_of_def document_at_def)
  show ?thesis
    using n c s x y p0 by (simp add: 1 2 3 4 5 6 7)
qed

subsection \<open>The href setter without a document\<close>

text \<open>
  Claim C9. When the relevant document is null, the href setter returns success at once
  for every input, leaving the world as it is: the input is not parsed, so that an input
  whose parse fails raises no SyntaxError, and nothing is navigated.
\<close>

theorem set_href_without_document:
  "relevant_document w = None \<Longrightarrow> set_href env w new_href = (Inr (), w)"
  by (simp add: set_href_def)

theorem set_href_without_document_witness:
  "relevant_document detached_world = None
   \<and> encoding_parse_url example_env ''::'' = None
   \<and> set_href example_env detached_world ''::'' = (Inr (), detached_world)
   \<and> fst (set_href example_env same_origin_world ''::'') = Inl (SyntaxError (invalid_url_message ''::''))"
proof -
  have n: "relevant_document detached_world = None"
    by (rule relevant_document_detached)
  have p: "encoding_parse_url example_env ''::'' = None"
    by (simp add: example_env_def example_parse_url_colons)
  have s: "relevant_document same_origin_world = Some (document_at example_url)"
    by (simp add: same_origin_world_def relevant_document_world_of)
  have e: "fst (set_href example_env same_origin_world ''::'') = Inl (SyntaxError (invalid_url_message ''::''))"
    by (simp add: set_href_def s p)
  from set_href_without_document [OF n, of example_env "''::''"] show ?thesis
    using n p e by simp
qed

subsection \<open>The protocol setter\<close>

text \<open>
  Claim C4. Once the relevant document is present and same origin-domain, the protocol
  setter parses the given value followed by ":" into a copy of the URL, with scheme start
  state as override. When the parse fails it throws a SyntaxError and does nothing else;
  when the parse succeeds and the scheme of the copy is neither http nor https it returns
  success without navigating; when the scheme is http or https it navigates to the copy.
  The SyntaxError is thrown exactly when the parse fails: after a successful parse the
  only exception is the one the navigable throws, so that, the navigable throwing no
  SyntaxError of its own, the setter ends in a SyntaxError if and only if the parse fails.
\<close>

theorem set_protocol_outcomes:
  assumes "relevant_document w = Some d"
    and "is_same_origin_domain env (document_origin d) (entry_settings_origin w)"
    and "basic_parse env (v @ '':'') (document_url d) SchemeStart = (possible_failure, copy_url)"
  shows
  "(possible_failure = None \<longrightarrow>
      set_protocol env w v = (Inl (SyntaxError (invalid_protocol_message v)), w))
   \<and> (possible_failure \<noteq> None \<and> url_scheme copy_url \<noteq> ''http''
        \<and> url_scheme copy_url \<noteq> ''https'' \<longrightarrow>
      set_protocol env w v = (Inr (), w))
   \<and> (possible_failure \<noteq> None
        \<and> (url_scheme copy_url = ''http'' \<or> url_scheme copy_url = ''https'') \<longrightarrow>
      set_protocol env w v = navigate env w copy_url Push
      \<and> navigations (snd (set_protocol env w v)) =
          navigations w @ [(window_navigable w,
            \<lparr> nav_url = copy_url, source_document = incumbent_associated_document w,
              exceptions_enabled = True,
              history_handling =
                (if \<not> is_completely_loaded d \<and> \<not> incumbent_has_transient_activation w
                 then Replace else Push) \<rparr>)])
   \<and> ((\<forall>nav params m. navigable_navigate env nav params \<noteq> Some (SyntaxError m)) \<longrightarrow>
        (is_syntax_error (fst (set_protocol env w v)) \<longleftrightarrow> possible_failure = None))"
proof -
  note u = url_Some [OF assms(1)]
  have fail: "possible_failure = None \<Longrightarrow>
      set_protocol env w v = (Inl (SyntaxError (invalid_protocol_message v)), w)"
    using assms by (simp add: set_protocol_def u)
  have drop: "possible_failure \<noteq> None \<Longrightarrow> url_scheme copy_url \<noteq> ''http'' \<Longrightarrow>
        url_scheme copy_url \<noteq> ''https'' \<Longrightarrow> set_protocol env w v = (Inr (), w)"
    using assms by (simp add: set_protocol_def u)
  have go: "possible_failure \<noteq> None \<Longrightarrow>
        url_scheme copy_url = ''http'' \<or> url_scheme copy_url = ''https'' \<Longrightarrow>
        set_protocol env w v = navigate env w copy_url Push"
    using assms by (auto simp add: set_protocol_def u default_history_handling_def)
  have exact: "is_syntax_error (fst (set_protocol env w v)) \<longleftrightarrow> possible_failure = None"
    if q: "\<forall>nav params m. navigable_navigate env nav params \<noteq> Some (SyntaxError m)"
  proof (cases "possible_failure = None")
    case True
    then show ?thesis by (simp add: fail is_syntax_error_def)
  next
    case False
    show ?thesis
    proof (cases "url_scheme copy_url = ''http'' \<or> url_scheme copy_url = ''https''")
      case True
      with False go have "set_protocol env w v = navigate env w copy_url Push" by blast
      with fst_navigate_not_syntax_error [OF assms(1) q] False show ?thesis by simp
    next
      case False
      with \<open>possible_failure \<noteq> None\<close> drop have "set_protocol env w v = (Inr (), w)" by blast
      with \<open>possible_failure \<noteq> None\<close> show ?thesis by (simp add: is_syntax_error_def)
    qed
  qed
  show ?thesis
  proof (intro conjI impI)
    assume "possible_failure = None"
    then show "set_protocol env w v = (Inl (SyntaxError (invalid_protocol_message v)), w)"
      by (rule fail)
  next
    assume "possible_failure \<noteq> None \<and> url_scheme copy_url \<noteq> ''http''
        \<and> url_scheme copy_url \<noteq> ''https''"
    then show "set_protocol env w v = (Inr (), w)"
      using drop by blast
  next
    assume a: "possible_failure \<noteq> None
        \<and> (url_scheme copy_url = ''http'' \<or> url_scheme copy_url = ''https'')"
    then show g: "set_protocol env w v = navigate env w copy_url Push"
      using go by blast
    show "navigations (snd (set_protocol env w v)) =
          navigations w @ [(window_navigable w,
            \<lparr> nav_url = copy_url, source_document = incumbent_associated_document w,
              exceptions_enabled = True,
              history_handling =
                (if \<not> is_completely_loaded d \<and> \<not> incumbent_has_transient_activation w
                 then Replace else Push) \<rparr>)]"
      by (simp add: g navigations_navigate [OF assms(1)])
  next
    assume "\<forall>nav params m. navigable_navigate env nav params \<noteq> Some (SyntaxError m)"
    then show "is_syntax_error (fst (set_protocol env w v)) \<longleftrightarrow> possible_failure = None"
      by (rule exact)
  qed
qed

theorem set_protocol_outcomes_witness:
  "relevant_document same_origin_world = Some (document_at example_url)
   \<and> is_same_origin_domain example_env (document_origin (document_at example_url))
         (entry_settings_origin same_origin_world)
   \<and> (\<forall>nav params m. navigable_navigate example_env nav params \<noteq> Some (SyntaxError m))
   \<and> set_protocol example_env same_origin_world ''1x''
        = (Inl (SyntaxError (invalid_protocol_message ''1x'')), same_origin_world)
   \<and> is_syntax_error (fst (set_protocol example_env same_origin_world ''1x''))
   \<and> set_protocol example_env same_origin_world ''ftp'' = (Inr (), same_origin_world)
   \<and> \<not> is_syntax_error (fst (set_protocol example_env same_origin_world ''ftp''))
   \<and> navigations (snd (set_protocol example_env same_origin_world ''https''))
        = [(7, \<lparr> nav_url = example_url\<lparr> url_scheme := ''https'' \<rparr>, source_document = 2,
                 exceptions_enabled = True, history_handling = Push \<rparr>)]
   \<and> \<not> is_syntax_error (fst (set_protocol example_env same_origin_world ''https''))"
proof -
  note f = same_origin_world_facts
  have q: "\<forall>nav params m. navigable_navigate example_env nav params \<noteq> Some (SyntaxError m)"
    by (simp add: example_navigate_never_throws)
  have p1: "basic_parse example_env (''1x'' @ '':'') (document_url (document_at example_url)) SchemeStart
              = (None, example_url)"
    and p2: "basic_parse example_env (''ftp'' @ '':'') (document_url (document_at example_url)) SchemeStart
              = (Some (example_url\<lparr> url_scheme := ''ftp'' \<rparr>), example_url\<lparr> url_scheme := ''ftp'' \<rparr>)"
    and p3: "basic_parse example_env (''https'' @ '':'') (document_url (document_at example_url)) SchemeStart
              = (Some (example_url\<lparr> url_scheme := ''https'' \<rparr>), example_url\<lparr> url_scheme := ''https'' \<rparr>)"
    by (simp_all add: f example_scheme_parse)
  from set_protocol_outcomes [OF f(1) f(2) p1] q
  have 1: "set_protocol example_env same_origin_world ''1x''
        = (Inl (SyntaxError (invalid_protocol_message ''1x'')), same_origin_world)"
    "is_syntax_error (fst (set_protocol example_env same_origin_world ''1x''))"
    by blast+
  from set_protocol_outcomes [OF f(1) f(2) p2] q
  have 2: "set_protocol example_env same_origin_world ''ftp'' = (Inr (), same_origin_world)"
    "\<not> is_syntax_error (fst (set_protocol example_env same_origin_world ''ftp''))"
    by (simp_all add: is_syntax_error_def)
  have g: "Some (example_url\<lparr> url_scheme := ''https'' \<rparr>) \<noteq> None"
    "url_scheme (example_url\<lparr> url_scheme := ''https'' \<rparr>) = ''https''"
    by simp_all
  from set_protocol_outcomes [OF f(1) f(2) p3] q g
  have "navigations (snd (set_protocol example_env same_origin_world ''https''))
        = navigations same_origin_world @ [(window_navigable same_origin_world,
            \<lparr> nav_url = example_url\<lparr> url_scheme := ''https'' \<rparr>,
              source_document = incumbent_associated_document same_origin_world,
              exceptions_enabled = True,
              history_handling =
                (if \<not> is_completely_loaded (document_at example_url)
                      \<and> \<not> incumbent_has_transient_activation same_origin_world
                 then Replace else Push) \<rparr>)]"
    and 4: "\<not> is_syntax_error (fst (set_protocol example_env same_origin_world ''https''))"
    by blast+
  then have 3: "navigations (snd (set_protocol example_env same_origin_world ''https''))
        = [(7, \<lparr> nav_url = example_url\<lparr> url_scheme := ''https'' \<rparr>, source_document = 2,
                 exceptions_enabled = True, history_handling = Push \<rparr>)]"
    by (simp add: f)
  show ?thesis
    using f(1) f(2) q 1 2 3 4 by simp
qed

subsection \<open>The empty string as search and as port\<close>

text \<open>
  Claim C10. With a relevant document that is same origin-domain, the search setter given
  the empty string sets the query of the copy to absent (not to the empty string) and
  navigates to the copy; the port setter given the empty string, when the URL can have a
  port, sets the port of the copy to absent and navigates to the copy. Neither invokes
  the parser: the outcome is the same whatever the parser \<open>p\<close> is.
\<close>

theorem empty_search_and_port:
  assumes "relevant_document w = Some d"
    and "is_same_origin_domain env (document_origin d) (entry_settings_origin w)"
  shows
  "set_search env w [] = navigate env w ((document_url d)\<lparr> url_query := None \<rparr>) Push
   \<and> navigations (snd (set_search env w [])) =
       navigations w @ [(window_navigable w,
         \<lparr> nav_url = (document_url d)\<lparr> url_query := None \<rparr>,
           source_document = incumbent_associated_document w, exceptions_enabled = True,
           history_handling =
             (if \<not> is_completely_loaded d \<and> \<not> incumbent_has_transient_activation w
              then Replace else Push) \<rparr>)]
   \<and> set_search (env\<lparr> basic_parse := p \<rparr>) w [] = set_search env w []
   \<and> (\<not> cannot_have_a_username_or_password_or_port (document_url d) \<longrightarrow>
        set_port env w [] = navigate env w ((document_url d)\<lparr> url_port := None \<rparr>) Push
      \<and> navigations (snd (set_port env w [])) =
          navigations w @ [(window_navigable w,
            \<lparr> nav_url = (document_url d)\<lparr> url_port := None \<rparr>,
              source_document = incumbent_associated_document w, exceptions_enabled = True,
              history_handling =
                (if \<not> is_completely_loaded d \<and> \<not> incumbent_has_transient_activation w
                 then Replace else Push) \<rparr>)]
      \<and> set_port (env\<lparr> basic_parse := p \<rparr>) w [] = set_port env w [])"
proof -
  note u = url_Some [OF assms(1)]
  have s: "set_search e w [] = navigate e w ((document_url d)\<lparr> url_query := None \<rparr>) Push"
    if "is_same_origin_domain e (document_origin d) (entry_settings_origin w)" for e
    using assms(1) that by (simp add: set_search_def u default_history_handling_def)
  have t: "set_port e w [] = navigate e w ((document_url d)\<lparr> url_port := None \<rparr>) Push"
    if "is_same_origin_domain e (document_origin d) (entry_settings_origin w)"
      and "\<not> cannot_have_a_username_or_password_or_port (document_url d)" for e
    using assms(1) that by (simp add: set_port_def u default_history_handling_def)
  have e: "is_same_origin_domain (env\<lparr> basic_parse := p \<rparr>) (document_origin d) (entry_settings_origin w)"
    using assms(2) by simp
  show ?thesis
    using s [OF assms(2)] s [OF e] t [OF assms(2)] t [OF e]
    by (simp add: navigations_navigate [OF assms(1)] navigate_basic_parse_update)
qed

theorem empty_search_and_port_witness:
  "relevant_document same_origin_world = Some (document_at example_url)
   \<and> is_same_origin_domain example_env (document_origin (document_at example_url))
         (entry_settings_origin same_origin_world)
   \<and> \<not> cannot_have_a_username_or_password_or_port (document_url (document_at example_url))
   \<and> navigations (snd (set_search example_env same_origin_world []))
        = [(7, \<lparr> nav_url = example_url\<lparr> url_query := None \<rparr>, source_document = 2,
                 exceptions_enabled = True, history_handling = Push \<rparr>)]
   \<and> navigations (snd (set_port example_env same_origin_world []))
        = [(7, \<lparr> nav_url = example_url\<lparr> url_port := None \<rparr>, source_document = 2,
                 exceptions_enabled = True, history_handling = Push \<rparr>)]"
proof -
  note f = same_origin_world_facts
  have c: "\<not> cannot_have_a_username_or_password_or_port (document_url (document_at example_url))"
    by (simp add: document_at_def cannot_have_a_username_or_password_or_port_def example_url_def)
  let ?d = "document_at example_url"
  let ?h = "if \<not> is_completely_loaded ?d \<and> \<not> incumbent_has_transient_activation same_origin_world
            then Replace else Push"
  from empty_search_and_port [OF f(1) f(2), of example_basic_parse] c
  have "navigations (snd (set_search example_env same_origin_world [])) =
       navigations same_origin_world @ [(window_navigable same_origin_world,
         \<lparr> nav_url = (document_url ?d)\<lparr> url_query := None \<rparr>,
           source_document = incumbent_associated_document same_origin_world,
           exceptions_enabled = True, history_handling = ?h \<rparr>)]"
    and "navigations (snd (set_port example_env same_origin_world [])) =
       navigations same_origin_world @ [(window_navigable same_origin_world,
         \<lparr> nav_url = (document_url ?d)\<lparr> url_port := None \<rparr>,
           source_document = incumbent_associated_document same_origin_world,
           exceptions_enabled = True, history_handling = ?h \<rparr>)]"
    by blast+
  then show ?thesis
    using f(1) f(2) c by (simp add: f)
qed

subsection \<open>The hash setter and an unchanged fragment\<close>

text \<open>
  Claim C5, as amended. For every input and every parser, when the fragment that the
  parser produces from the input (one leading "#" removed, fragment state as override,
  in a copy whose fragment was emptied) is the prior fragment (the empty string when
  absent), the hash setter leaves the world as it is and navigates nowhere. In
  particular, with the Fragment state of the specification and the fragment of the URL
  record in encoded form, as section 3 has it, setting hash to its own current value
  \<open>h\<close>, or to "#" followed by the current fragment, navigates nowhere; setting it to
  that value without the leading "#" navigates nowhere provided the fragment does not
  itself begin with "#".
\<close>

theorem set_hash_same_fragment:
  "(url_fragment (snd (basic_parse env (substring_view v (of_bool (starts_with v CHR ''#'')))
                  ((url w)\<lparr> url_fragment := Some [] \<rparr>) Fragment))
      = Some (case url_fragment (url w) of Some f \<Rightarrow> f | None \<Rightarrow> [])
    \<longrightarrow> snd (set_hash env w v) = w \<and> navigations (snd (set_hash env w v)) = navigations w)
   \<and> ((\<forall>input u. basic_parse env input u Fragment = fragment_state_parse input u)
       \<and> current = (case url_fragment (url w) of Some f \<Rightarrow> f | None \<Rightarrow> [])
       \<and> is_percent_encoded_fragment current
    \<longrightarrow> (hash env w = Inr h \<longrightarrow> navigations (snd (set_hash env w h)) = navigations w)
       \<and> navigations (snd (set_hash env w (CHR ''#'' # current))) = navigations w
       \<and> (\<not> starts_with current CHR ''#'' \<longrightarrow>
            navigations (snd (set_hash env w current)) = navigations w))"
proof (intro conjI impI)
  assume "url_fragment (snd (basic_parse env (substring_view v (of_bool (starts_with v CHR ''#'')))
                  ((url w)\<lparr> url_fragment := Some [] \<rparr>) Fragment))
      = Some (case url_fragment (url w) of Some f \<Rightarrow> f | None \<Rightarrow> [])"
  then show "snd (set_hash env w v) = w"
    by (rule set_hash_unchanged) (rule refl)
  then show "navigations (snd (set_hash env w v)) = navigations w"
    by simp
next
  assume a: "(\<forall>input u. basic_parse env input u Fragment = fragment_state_parse input u)
       \<and> current = (case url_fragment (url w) of Some f \<Rightarrow> f | None \<Rightarrow> [])
       \<and> is_percent_encoded_fragment current"
  then have c: "current = (case url_fragment (url w) of Some f \<Rightarrow> f | None \<Rightarrow> [])"
    and e: "is_percent_encoded_fragment current"
    and m: "\<And>input u. basic_parse env input u Fragment = fragment_state_parse input u"
    by blast+
  have p: "url_fragment (snd (basic_parse env current
                  ((url w)\<lparr> url_fragment := Some [] \<rparr>) Fragment)) = Some current"
    unfolding m by (rule fragment_state_parse_encoded [OF e])
  have with_hash: "snd (set_hash env w (CHR ''#'' # current)) = w"
  proof (rule set_hash_unchanged [where current = current])
    show "url_fragment (snd (basic_parse env
             (substring_view (CHR ''#'' # current) (of_bool (starts_with (CHR ''#'' # current) CHR ''#'')))
             ((url w)\<lparr> url_fragment := Some [] \<rparr>) Fragment)) = Some current"
      unfolding strip_leading_hash(1) by (rule p)
  qed (rule c)
  then show "navigations (snd (set_hash env w (CHR ''#'' # current))) = navigations w"
    by simp
  have without_hash: "snd (set_hash env w current) = w" if n: "\<not> starts_with current CHR ''#''"
  proof (rule set_hash_unchanged [where current = current])
    show "url_fragment (snd (basic_parse env
             (substring_view current (of_bool (starts_with current CHR ''#'')))
             ((url w)\<lparr> url_fragment := Some [] \<rparr>) Fragment)) = Some current"
      unfolding strip_leading_hash(2) [OF n] by (rule p)
  qed (rule c)
  { assume "\<not> starts_with current CHR ''#''"
    then show "navigations (snd (set_hash env w current)) = navigations w"
      by (simp add: without_hash) }
  { assume g: "hash env w = Inr h"
    have "h = [] \<and> current = [] \<or> h = CHR ''#'' # current"
      using g c by (auto simp add: hash_def split: if_splits option.splits)
    then have "snd (set_hash env w h) = w"
    proof
      assume "h = [] \<and> current = []"
      then show ?thesis
        using without_hash by (simp add: starts_with_def)
    next
      assume "h = CHR ''#'' # current"
      then show ?thesis
        by (simp add: with_hash)
    qed
    then show "navigations (snd (set_hash env w h)) = navigations w"
      by simp }
qed

theorem set_hash_same_fragment_witness:
  "(\<forall>input u. basic_parse example_env input u Fragment = fragment_state_parse input u)
   \<and> url_fragment (url same_origin_world) = Some ''f''
   \<and> is_percent_encoded_fragment ''f''
   \<and> \<not> starts_with ''f'' CHR ''#''
   \<and> hash example_env same_origin_world = Inr ''#f''
   \<and> url_fragment (snd (basic_parse example_env ''f''
          ((url same_origin_world)\<lparr> url_fragment := Some [] \<rparr>) Fragment)) = Some ''f''
   \<and> set_hash example_env same_origin_world ''#f'' = (Inr (), same_origin_world)
   \<and> navigations (snd (set_hash example_env same_origin_world ''#f'')) = []
   \<and> navigations (snd (set_hash example_env same_origin_world ''f'')) = []"
proof -
  note f = same_origin_world_facts
  have m: "\<forall>input u. basic_parse example_env input u Fragment = fragment_state_parse input u"
    by (simp add: example_fragment_state)
  have u: "url same_origin_world = example_url"
    by (simp add: url_Some [OF f(1)] f(3))
  have c: "url_fragment (url same_origin_world) = Some ''f''"
    by (simp add: u example_url_def)
  have p: "url_fragment (snd (basic_parse example_env ''f''
          ((url same_origin_world)\<lparr> url_fragment := Some [] \<rparr>) Fragment)) = Some ''f''"
    by (simp add: example_fragment_parse)
  have i: "is_percent_encoded_fragment ''f''"
    by (simp add: is_percent_encoded_fragment_def in_fragment_percent_encode_set_def)
  have s: "\<not> starts_with ''f'' CHR ''#''"
    by (simp add: starts_with_def)
  have g: "\<not> cross_origin_document example_env same_origin_world"
    by (simp add: cross_origin_document_Some [OF f(1)] f(2))
  have h: "hash example_env same_origin_world = Inr ''#f''"
    by (simp add: hash_def g c)
  have e: "''f'' = (case url_fragment (url same_origin_world) of Some f \<Rightarrow> f | None \<Rightarrow> [])"
    by (simp add: c)
  have q: "url_fragment (snd (basic_parse example_env
             (substring_view ''#f'' (of_bool (starts_with ''#f'' CHR ''#'')))
             ((url same_origin_world)\<lparr> url_fragment := Some [] \<rparr>) Fragment))
           = Some (case url_fragment (url same_origin_world) of Some f \<Rightarrow> f | None \<Rightarrow> [])"
    by (simp add: substring_view_def starts_with_def example_fragment_parse c)
  from set_hash_same_fragment [of example_env "''#f''" same_origin_world] q
  have 0: "snd (set_hash example_env same_origin_world ''#f'') = same_origin_world"
    by blast
  have 00: "fst (set_hash example_env same_origin_world ''#f'') = Inr ()"
    using f(1) f(2) q by (simp add: set_hash_def Let_def split del: split_of_bool)
  from set_hash_same_fragment [of example_env _ same_origin_world "''f''" "''#f''"] m e i s h
  have "navigations (snd (set_hash example_env same_origin_world ''#f''))
          = navigations same_origin_world"
    and "navigations (snd (set_hash example_env same_origin_world ''f''))
          = navigations same_origin_world"
    by blast+
  moreover have "set_hash example_env same_origin_world ''#f'' = (Inr (), same_origin_world)"
    using 0 00 by (simp add: prod_eq_iff)
  ultimately show ?thesis
    using m c i s h p by (simp add: f)
qed

subsection \<open>A fragment that begins with "#"\<close>

text \<open>
  The claim C5 as first stated, that setting hash to its own current value navigates
  nowhere both with and without the leading "#", fails for a fragment that itself begins
  with "#". At \<open>http://a.test:8080/p?q##x\<close> the fragment is \<open>#x\<close> and hash reads \<open>##x\<close>;
  setting hash to \<open>##x\<close> navigates nowhere, but setting it to \<open>#x\<close>, the value without
  its leading "#", has one more "#" removed by step 5 and navigates to the fragment
  \<open>x\<close>.
\<close>

theorem set_hash_own_value_counterexample:
  "relevant_document double_hash_world = Some (document_at double_hash_url)
   \<and> is_same_origin_domain example_env (document_origin (document_at double_hash_url))
        (entry_settings_origin double_hash_world)
   \<and> hash example_env double_hash_world = Inr ''##x''
   \<and> navigations double_hash_world = []
   \<and> navigations (snd (set_hash example_env double_hash_world ''##x'')) = []
   \<and> navigations (snd (set_hash example_env double_hash_world ''#x''))
        = [(7, \<lparr> nav_url = double_hash_url\<lparr> url_fragment := Some ''x'' \<rparr>, source_document = 2,
                 exceptions_enabled = True, history_handling = Push \<rparr>)]"
proof -
  note f = double_hash_world_facts
  have g: "\<not> cross_origin_document example_env double_hash_world"
    by (simp add: cross_origin_document_Some [OF f(1)] f(2))
  have 1: "hash example_env double_hash_world = Inr ''##x''"
    by (simp add: hash_def g f)
  have 2: "set_hash example_env double_hash_world ''##x'' = (Inr (), double_hash_world)"
    using f(1) f(2)
    by (simp add: set_hash_def f(3) f(4) substring_view_def starts_with_def
        example_fragment_parse)
  have 3: "set_hash example_env double_hash_world ''#x''
             = navigate example_env double_hash_world
                 (double_hash_url\<lparr> url_fragment := Some ''x'' \<rparr>) Push"
    using f(1) f(2)
    by (simp add: set_hash_def f(3) f(4) substring_view_def starts_with_def
        example_fragment_parse default_history_handling_def)
  show ?thesis
    using f(1) f(2) by (simp add: 1 2 3 navigations_navigate [OF f(1)] f)
qed

subsection \<open>The silent no-ops of the setters\<close>

text \<open>
  Claim C7, as amended. Every setter is a silent no-op (it returns success and leaves the
  world, hence the navigations and the document's URL, as they are) when the relevant
  document is null. With a document that is same origin-domain, the host, hostname and
  pathname setters are silent no-ops when the URL has an opaque path, and the port
  setter is one when the URL cannot have a username, password or port. None of these
  conditions surfaces an error.
\<close>

theorem setters_silent_no_op:
  "(relevant_document w = None \<longrightarrow>
      set_href env w v = (Inr (), w)
    \<and> set_protocol env w v = (Inr (), w)
    \<and> set_host env w v = (Inr (), w)
    \<and> set_hostname env w v = (Inr (), w)
    \<and> set_port env w v = (Inr (), w)
    \<and> set_pathname env w v = (Inr (), w)
    \<and> set_search env w v = (Inr (), w)
    \<and> set_hash env w v = (Inr (), w))
   \<and> (relevant_document w = Some d
        \<and> is_same_origin_domain env (document_origin d) (entry_settings_origin w)
        \<and> has_an_opaque_path (document_url d) \<longrightarrow>
      set_host env w v = (Inr (), w)
    \<and> set_hostname env w v = (Inr (), w)
    \<and> set_pathname env w v = (Inr (), w))
   \<and> (relevant_document w = Some d
        \<and> is_same_origin_domain env (document_origin d) (entry_settings_origin w)
        \<and> cannot_have_a_username_or_password_or_port (document_url d) \<longrightarrow>
      set_port env w v = (Inr (), w))"
proof (intro conjI impI)
  assume n: "relevant_document w = None"
  show "set_href env w v = (Inr (), w)" using n by (simp add: set_href_def)
  show "set_protocol env w v = (Inr (), w)" using n by (simp add: set_protocol_def)
  show "set_host env w v = (Inr (), w)" using n by (simp add: set_host_def)
  show "set_hostname env w v = (Inr (), w)" using n by (simp add: set_hostname_def)
  show "set_port env w v = (Inr (), w)" using n by (simp add: set_port_def)
  show "set_pathname env w v = (Inr (), w)" using n by (simp add: set_pathname_def)
  show "set_search env w v = (Inr (), w)" using n by (simp add: set_search_def)
  show "set_hash env w v = (Inr (), w)" using n by (simp add: set_hash_def)
next
  assume a: "relevant_document w = Some d
        \<and> is_same_origin_domain env (document_origin d) (entry_settings_origin w)
        \<and> has_an_opaque_path (document_url d)"
  then have u: "url w = document_url d" by (simp add: url_Some)
  show "set_host env w v = (Inr (), w)" using a by (simp add: set_host_def u)
  show "set_hostname env w v = (Inr (), w)" using a by (simp add: set_hostname_def u)
  show "set_pathname env w v = (Inr (), w)" using a by (simp add: set_pathname_def u)
next
  assume a: "relevant_document w = Some d
        \<and> is_same_origin_domain env (document_origin d) (entry_settings_origin w)
        \<and> cannot_have_a_username_or_password_or_port (document_url d)"
  then have u: "url w = document_url d" by (simp add: url_Some)
  show "set_port env w v = (Inr (), w)" using a by (simp add: set_port_def u)
qed

theorem setters_silent_no_op_witness:
  "relevant_document detached_world = None
   \<and> set_host example_env detached_world ''b.test'' = (Inr (), detached_world)
   \<and> set_port example_env detached_world ''81'' = (Inr (), detached_world)
   \<and> set_hash example_env detached_world ''top'' = (Inr (), detached_world)
   \<and> relevant_document mailto_world = Some (document_at mailto_url)
   \<and> is_same_origin_domain example_env (document_origin (document_at mailto_url))
        (entry_settings_origin mailto_world)
   \<and> has_an_opaque_path (document_url (document_at mailto_url))
   \<and> set_host example_env mailto_world ''b.test'' = (Inr (), mailto_world)
   \<and> set_hostname example_env mailto_world ''b.test'' = (Inr (), mailto_world)
   \<and> set_pathname example_env mailto_world ''/y'' = (Inr (), mailto_world)
   \<and> relevant_document file_world = Some (document_at file_url)
   \<and> is_same_origin_domain example_env (document_origin (document_at file_url))
        (entry_settings_origin file_world)
   \<and> cannot_have_a_username_or_password_or_port (document_url (document_at file_url))
   \<and> set_port example_env file_world ''81'' = (Inr (), file_world)"
proof -
  note n = relevant_document_detached and m = mailto_world_facts and f = file_world_facts
  from setters_silent_no_op [of detached_world example_env "''b.test''"] n
  have 1: "set_host example_env detached_world ''b.test'' = (Inr (), detached_world)"
    by blast
  from setters_silent_no_op [of detached_world example_env "''81''"] n
  have 2: "set_port example_env detached_world ''81'' = (Inr (), detached_world)"
    by blast
  from setters_silent_no_op [of detached_world example_env "''top''"] n
  have 3: "set_hash example_env detached_world ''top'' = (Inr (), detached_world)"
    by blast
  from setters_silent_no_op [of mailto_world example_env "''b.test''" "document_at mailto_url"] m
  have 4: "set_host example_env mailto_world ''b.test'' = (Inr (), mailto_world)"
    "set_hostname example_env mailto_world ''b.test'' = (Inr (), mailto_world)"
    by blast+
  from setters_silent_no_op [of mailto_world example_env "''/y''" "document_at mailto_url"] m
  have 5: "set_pathname example_env mailto_world ''/y'' = (Inr (), mailto_world)"
    by blast
  from setters_silent_no_op [of file_world example_env "''81''" "document_at file_url"] f
  have 6: "set_port example_env file_world ''81'' = (Inr (), file_world)"
    by blast
  show ?thesis
    using n m f(1-3) 1 2 3 4 5 6 by simp
qed

subsection \<open>The host setter has no port guard\<close>

text \<open>
  The claim C7 as first stated also makes the host setter a silent no-op when the URL
  cannot have a username, password or port, and lets the structural conditions stand
  without the security gate. Location::set_host has the opaque-path guard only: at
  \<open>file:///x\<close>, which cannot have a port, the host setter navigates. And the gate comes
  first: at \<open>mailto:x\<close>, whose path is opaque, a caller of another origin gets the
  SecurityError.
\<close>

theorem set_host_no_port_guard_counterexample:
  "relevant_document file_world = Some (document_at file_url)
   \<and> is_same_origin_domain example_env (document_origin (document_at file_url))
        (entry_settings_origin file_world)
   \<and> cannot_have_a_username_or_password_or_port (url file_world)
   \<and> navigations file_world = []
   \<and> length (navigations (snd (set_host example_env file_world ''b''))) = 1
   \<and> relevant_document cross_origin_mailto_world = Some (document_at mailto_url)
   \<and> has_an_opaque_path (url cross_origin_mailto_world)
   \<and> fst (set_host example_env cross_origin_mailto_world ''b'')
        = Inl (SecurityError not_same_origin_domain_message)"
proof -
  note f = file_world_facts and c = cross_origin_mailto_world_facts
  have u: "url file_world = document_url (document_at file_url)"
    "url cross_origin_mailto_world = document_url (document_at mailto_url)"
    by (simp_all add: url_Some f c)
  have 1: "set_host example_env file_world ''b''
             = navigate example_env file_world
                 (snd (basic_parse example_env ''b'' (url file_world) Host)) Push"
    using f by (simp add: set_host_def u default_history_handling_def)
  have 2: "length (navigations (snd (set_host example_env file_world ''b''))) = 1"
    by (simp add: 1 navigations_navigate [OF f(1)] f(5))
  have 3: "fst (set_host example_env cross_origin_mailto_world ''b'')
        = Inl (SecurityError not_same_origin_domain_message)"
    using c by (simp add: set_host_def)
  show ?thesis
    using f c 2 3 by (simp add: u mailto_world_facts)
qed

subsection \<open>[[GetOwnProperty]] for a same-origin caller\<close>



end
